theory Spec2Isabelle
  imports Complex_Main "HOL-Library.Char_ord" "HOL-Library.List_Lexorder"
begin

section \<open>gitclaw: the Solana query and monitor agents\<close>

text \<open>
  A shallow embedding of \<^verbatim>\<open>src/agents/solana_query.py\<close> and
  \<^verbatim>\<open>src/agents/solana_monitor.py\<close>.

  Conventions of the embedding.
  \<^item> A Python \<^verbatim>\<open>float\<close> is an exact rational (\<^typ>\<open>rat\<close>): the arithmetic of the
    source is read without IEEE rounding, overflow, infinities or NaN.
  \<^item> A Python \<^verbatim>\<open>int\<close> is an \<^typ>\<open>int\<close>; \<^verbatim>\<open>//\<close> is \<open>div\<close> (both round to the floor).
  \<^item> A dictionary key that a \<^verbatim>\<open>.get\<close> may find missing is an \<open>option\<close> field,
    \<open>None\<close> standing for the missing key.
  \<^item> Whatever the source reads from the outside (the network, the clock, the snapshot
    directory) is an argument of the function that reads it.
\<close>

subsection \<open>Network status: transactions per second\<close>

text \<open>
  One entry of \<^verbatim>\<open>getRecentPerformanceSamples\<close>, with the keys that
  \<^verbatim>\<open>handle_network\<close> reads through \<^verbatim>\<open>sample.get\<close>.
\<close>

record perf_sample =
  numTransactions :: "int option"
  samplePeriodSecs :: "int option"

text \<open>
  The body of the loop of \<^verbatim>\<open>handle_network\<close>:
  \<^verbatim>\<open>
  txs = sample.get("numTransactions", 0)
  period = sample.get("samplePeriodSecs", 1)
  tps = txs // period if period > 0 else 0
  \<close>
\<close>

definition sample_tps :: "perf_sample \<Rightarrow> int" where
  "sample_tps sample =
     (let txs = (case numTransactions sample of None \<Rightarrow> 0 | Some n \<Rightarrow> n);
          period = (case samplePeriodSecs sample of None \<Rightarrow> 1 | Some p \<Rightarrow> p)
      in if period > 0 then txs div period else 0)"

text \<open>\<^verbatim>\<open>for sample in perf[:3]\<close>: the figures of the first three samples.\<close>

definition network_tps :: "perf_sample list \<Rightarrow> int list" where
  "network_tps perf = map sample_tps (take 3 perf)"

subsection \<open>Values and exceptions\<close>

text \<open>
  What \<^verbatim>\<open>json.loads\<close> returns. An object is an association list of its members;
  \<open>py_get\<close> reads it the way \<^verbatim>\<open>dict.get\<close> does.
\<close>

datatype json =
    JNull
  | JBool bool
  | JInt int
  | JFloat rat
  | JStr string
  | JList "json list"
  | JDict "(string \<times> json) list"

text \<open>The exceptions the modelled code can raise, each with its message (\<^verbatim>\<open>str(e)\<close>).\<close>

datatype pyerr =
    AttributeError string
  | TypeError string
  | ValueError string
  | KeyError string
  | IndexError string

fun str_exc :: "pyerr \<Rightarrow> string" where
  "str_exc (AttributeError m) = m"
| "str_exc (TypeError m) = m"
| "str_exc (ValueError m) = m"
| "str_exc (KeyError m) = m"
| "str_exc (IndexError m) = m"

fun type_name :: "json \<Rightarrow> string" where
  "type_name JNull = ''NoneType''"
| "type_name (JBool _) = ''bool''"
| "type_name (JInt _) = ''int''"
| "type_name (JFloat _) = ''float''"
| "type_name (JStr _) = ''str''"
| "type_name (JList _) = ''list''"
| "type_name (JDict _) = ''dict''"

text \<open>A name between single quotes, as Python's messages print it.\<close>

definition quoted :: "string \<Rightarrow> string" where
  "quoted s = [CHR 0x27] @ s @ [CHR 0x27]"

text \<open>\<^verbatim>\<open>x.get(key, default)\<close>: only a dictionary has the method.\<close>

fun py_get :: "json \<Rightarrow> string \<Rightarrow> json \<Rightarrow> pyerr + json" where
  "py_get (JDict kvs) key dflt = Inr (case map_of kvs key of None \<Rightarrow> dflt | Some v \<Rightarrow> v)"
| "py_get x key dflt =
     Inl (AttributeError (quoted (type_name x) @ '' object has no attribute '' @ quoted ''get''))"

text \<open>
  \<^verbatim>\<open>float(x)\<close>. The parser of numeric strings is Python's own and is a parameter
  \<open>pf\<close> here: \<open>pf s = None\<close> when \<^verbatim>\<open>float(s)\<close> raises \<^verbatim>\<open>ValueError\<close>.
\<close>

fun py_float :: "(string \<Rightarrow> rat option) \<Rightarrow> json \<Rightarrow> pyerr + rat" where
  "py_float pf (JInt n) = Inr (of_int n)"
| "py_float pf (JFloat r) = Inr r"
| "py_float pf (JBool b) = Inr (if b then 1 else 0)"
| "py_float pf (JStr s) =
     (case pf s of
        None \<Rightarrow> Inl (ValueError (''could not convert string to float: '' @ quoted s))
      | Some r \<Rightarrow> Inr r)"
| "py_float pf x =
     Inl (TypeError (''float() argument must be a string or a real number, not ''
                      @ quoted (type_name x)))"

subsection \<open>Formatting numbers\<close>

text \<open>Decimal digits of a natural number, as \<^verbatim>\<open>str\<close> prints them.\<close>

definition digit_char :: "nat \<Rightarrow> char" where
  "digit_char n = ''0123456789'' ! n"

fun show_nat :: "nat \<Rightarrow> string" where
  "show_nat n = (if n < 10 then [digit_char n] else show_nat (n div 10) @ [digit_char (n mod 10)])"

declare show_nat.simps [simp del]

text \<open>Rounding to the nearest integer, ties to the even one.\<close>

definition round_half_even :: "rat \<Rightarrow> int" where
  "round_half_even x =
     (let f = \<lfloor>x\<rfloor>; d = x - of_int f
      in if d < 1 / 2 then f else if 1 / 2 < d then f + 1 else if even f then f else f + 1)"

text \<open>
  The format specification \<^verbatim>\<open>:.Nf\<close> (\<open>N = d\<close>, at least one digit after the point):
  the sign, the integer part, and \<open>d\<close> digits of the value rounded at the \<open>d\<close>-th decimal.
\<close>

definition fmt_f :: "nat \<Rightarrow> rat \<Rightarrow> string" where
  "fmt_f d x =
     (let n = nat (round_half_even (\<bar>x\<bar> * 10 ^ d));
          frac = show_nat (n mod 10 ^ d)
      in (if x < 0 then ''-'' else '''') @ show_nat (n div 10 ^ d) @ ''.''
           @ replicate (d - length frac) (CHR ''0'') @ frac)"

subsection \<open>Observations and snapshots\<close>

text \<open>
  The dictionaries that \<^verbatim>\<open>check_wallets\<close> and \<^verbatim>\<open>check_prices\<close> build and that a
  snapshot file holds. \<^verbatim>\<open>balance_sol\<close> is a float or \<^verbatim>\<open>None\<close>; the source reads it
  with \<^verbatim>\<open>.get\<close> only, and treats a missing key as \<^verbatim>\<open>None\<close>, so \<open>None\<close> stands
  for both. The price fields hold whatever the upstream API sent.
\<close>

record wallet_obs =
  address :: string
  label :: string
  balance_sol :: "rat option"
  w_timestamp :: "string option"
  w_error :: "string option"

record token_obs =
  symbol :: string
  price_usd :: "json option"
  change_24h :: "json option"
  volume_24h :: "json option"
  liquidity_usd :: "json option"
  dex :: "json option"
  p_timestamp :: "string option"
  p_error :: "string option"

text \<open>A snapshot dictionary; \<^verbatim>\<open>{}\<close> has none of the three keys.\<close>

record snapshot =
  timestamp :: "string option"
  wallets :: "wallet_obs list option"
  prices :: "token_obs list option"

definition empty_dict :: snapshot where
  "empty_dict = \<lparr>timestamp = None, wallets = None, prices = None\<rparr>"

text \<open>\<^verbatim>\<open>d.get("wallets", [])\<close> and \<^verbatim>\<open>d.get("prices", [])\<close>.\<close>

definition get_wallets :: "snapshot \<Rightarrow> wallet_obs list" where
  "get_wallets d = (case wallets d of None \<Rightarrow> [] | Some ws \<Rightarrow> ws)"

definition get_prices :: "snapshot \<Rightarrow> token_obs list" where
  "get_prices d = (case prices d of None \<Rightarrow> [] | Some ps \<Rightarrow> ps)"

subsection \<open>Change detection\<close>

text \<open>
  \<^verbatim>\<open>{w["address"]: w for w in previous.get("wallets", [])}\<close> and the same for prices:
  the entries are stored one after the other, so a later entry replaces an earlier one
  with the same key.
\<close>

definition index_wallets :: "wallet_obs list \<Rightarrow> (string \<rightharpoonup> wallet_obs)" where
  "index_wallets ws = fold (\<lambda>w m. m(address w \<mapsto> w)) ws Map.empty"

definition index_prices :: "token_obs list \<Rightarrow> (string \<rightharpoonup> token_obs)" where
  "index_prices ps = fold (\<lambda>p m. m(symbol p \<mapsto> p)) ps Map.empty"

text \<open>
  The body of the first loop of \<^verbatim>\<open>detect_changes\<close>, from the alert list before
  the iteration to the alert list after it.
\<close>

definition wallet_step :: "(string \<rightharpoonup> wallet_obs) \<Rightarrow> wallet_obs \<Rightarrow> string list \<Rightarrow> string list" where
  "wallet_step prev_wallets wallet alerts =
     (case prev_wallets (address wallet) of
        None \<Rightarrow> alerts
      | Some prev_wallet \<Rightarrow>
          (case balance_sol wallet of
             None \<Rightarrow> alerts
           | Some curr_bal \<Rightarrow>
               (let prev_bal = (case balance_sol prev_wallet of None \<Rightarrow> 0 | Some b \<Rightarrow> b)
                in if prev_bal > 0 then
                     (let change_pct = ((curr_bal - prev_bal) / prev_bal) * 100
                      in if \<bar>change_pct\<bar> > 5 then
                           (let direction = (if change_pct > 0 then ''increased'' else ''decreased'')
                            in alerts @
                                 [''Wallet '' @ label wallet @ '': Balance '' @ direction @ '' by ''
                                    @ fmt_f 1 \<bar>change_pct\<bar> @ ''% ('' @ fmt_f 4 prev_bal
                                    @ '' -> '' @ fmt_f 4 curr_bal @ '' SOL)''])
                         else alerts)
                   else alerts)))"

text \<open>
  The body of the second loop. \<^verbatim>\<open>price.get("price_usd", 0)\<close> is the integer \<open>0\<close>
  when the key is missing; an exception of either \<^verbatim>\<open>float\<close> call is caught and
  the token is passed over.
\<close>

definition price_or_zero :: "token_obs \<Rightarrow> json" where
  "price_or_zero p = (case price_usd p of None \<Rightarrow> JInt 0 | Some v \<Rightarrow> v)"

definition price_step ::
  "(string \<Rightarrow> rat option) \<Rightarrow> (string \<rightharpoonup> token_obs) \<Rightarrow> token_obs \<Rightarrow> string list \<Rightarrow> string list" where
  "price_step pf prev_prices price alerts =
     (let sym = symbol price
      in case prev_prices sym of
           None \<Rightarrow> alerts
         | Some prev \<Rightarrow>
             (case py_float pf (price_or_zero price) of
                Inl e \<Rightarrow> alerts
              | Inr curr_price \<Rightarrow>
                  (case py_float pf (price_or_zero prev) of
                     Inl e \<Rightarrow> alerts
                   | Inr prev_price \<Rightarrow>
                       if prev_price > 0 then
                         (let change_pct = ((curr_price - prev_price) / prev_price) * 100
                          in if \<bar>change_pct\<bar> > 10 then
                               (let direction = (if change_pct > 0 then ''pumped'' else ''dumped'')
                                in alerts @
                                     [sym @ '' '' @ direction @ '' '' @ fmt_f 1 \<bar>change_pct\<bar>
                                        @ ''% ($'' @ fmt_f 4 prev_price @ '' -> $''
                                        @ fmt_f 4 curr_price @ '')''])
                             else alerts)
                       else alerts)))"

text \<open>\<^verbatim>\<open>detect_changes(current, previous)\<close>: both loops over one alert list.\<close>

definition detect_changes :: "(string \<Rightarrow> rat option) \<Rightarrow> snapshot \<Rightarrow> snapshot \<Rightarrow> string list" where
  "detect_changes pf current previous =
     (let alerts = [];
          prev_wallets = index_wallets (get_wallets previous);
          alerts = fold (wallet_step prev_wallets) (get_wallets current) alerts;
          prev_prices = index_prices (get_prices previous);
          alerts = fold (price_step pf prev_prices) (get_prices current) alerts
      in alerts)"

subsection \<open>The snapshot directory\<close>

text \<open>
  \<^verbatim>\<open>SNAPSHOTS_DIR\<close> as the list of its files, each a name with the snapshot that
  \<^verbatim>\<open>json.loads\<close> reads from it (\<^verbatim>\<open>json.dumps\<close> and \<^verbatim>\<open>json.loads\<close> are the standard
  library's and are taken to be inverse on snapshots). Names are compared as Python
  compares strings, character by character.
\<close>

type_synonym directory = "(string \<times> snapshot) list"

text \<open>The names that \<^verbatim>\<open>glob("*.json")\<close> selects.\<close>

definition is_json_file :: "string \<Rightarrow> bool" where
  "is_json_file name = (5 \<le> length name \<and> drop (length name - 5) name = ''.json'')"

text \<open>
  \<^verbatim>\<open>
  snapshot_files = sorted(SNAPSHOTS_DIR.glob("*.json"))
  if snapshot_files:
      return json.loads(snapshot_files[-1].read_text())
  return {}
  \<close>
\<close>

definition load_previous_snapshot :: "directory \<Rightarrow> snapshot" where
  "load_previous_snapshot dir =
     (let snapshot_files = sort_key fst (filter (\<lambda>f. is_json_file (fst f)) dir)
      in if snapshot_files \<noteq> [] then snd (last snapshot_files) else empty_dict)"

text \<open>\<^verbatim>\<open>path.write_text(...)\<close>: the file is created, or truncated and rewritten.\<close>

definition write_text :: "string \<Rightarrow> snapshot \<Rightarrow> directory \<Rightarrow> directory" where
  "write_text name content dir = filter (\<lambda>f. fst f \<noteq> name) dir @ [(name, content)]"

text \<open>The reading of the clock, \<^verbatim>\<open>datetime.now(timezone.utc)\<close>.\<close>

record datetime =
  year :: nat
  month :: nat
  day :: nat
  hour :: nat
  minute :: nat
  second :: nat

definition zero_pad :: "nat \<Rightarrow> string \<Rightarrow> string" where
  "zero_pad w s = replicate (w - length s) (CHR ''0'') @ s"

text \<open>\<^verbatim>\<open>strftime("%Y%m%d-%H%M")\<close>.\<close>

definition strftime_Ymd_HM :: "datetime \<Rightarrow> string" where
  "strftime_Ymd_HM now =
     zero_pad 4 (show_nat (year now)) @ zero_pad 2 (show_nat (month now))
       @ zero_pad 2 (show_nat (day now)) @ ''-''
       @ zero_pad 2 (show_nat (hour now)) @ zero_pad 2 (show_nat (minute now))"

text \<open>
  \<^verbatim>\<open>save_snapshot(data)\<close>, from the clock and the directory to the path and the
  directory after the write.
\<close>

definition save_snapshot :: "datetime \<Rightarrow> snapshot \<Rightarrow> directory \<Rightarrow> string \<times> directory" where
  "save_snapshot now data dir =
     (let ts = strftime_Ymd_HM now;
          path = ''snapshot-'' @ ts @ ''.json''
      in (path, write_text path data dir))"

subsection \<open>The chain and market client\<close>

text \<open>
  What one HTTP request of \<^verbatim>\<open>fetch_json\<close> meets: \<^verbatim>\<open>urllib.request.Request\<close> raises
  before the \<^verbatim>\<open>try\<close> (a malformed URL); or \<^verbatim>\<open>urlopen\<close>, \<^verbatim>\<open>read\<close> or
  \<^verbatim>\<open>json.loads\<close> raises inside it (no route, a timeout, a body that is not JSON); or
  the body is parsed.
\<close>

datatype http_outcome =
    BadRequest string
  | Failed string
  | Body json

text \<open>
  \<^verbatim>\<open>
  try:
      with urllib.request.urlopen(req, timeout=15) as resp:
          return json.loads(resp.read())
  except Exception as e:
      return {"error": str(e)}
  \<close>
\<close>

definition fetch_json :: "http_outcome \<Rightarrow> pyerr + json" where
  "fetch_json outcome =
     (case outcome of
        BadRequest m \<Rightarrow> Inl (ValueError m)
      | Failed m \<Rightarrow> Inr (JDict [(''error'', JStr m)])
      | Body j \<Rightarrow> Inr j)"

text \<open>Sequencing of calls that may raise: the first exception ends the sequence.\<close>

definition bind_exc :: "pyerr + 'a \<Rightarrow> ('a \<Rightarrow> pyerr + 'b) \<Rightarrow> pyerr + 'b" where
  "bind_exc r f = (case r of Inl e \<Rightarrow> Inl e | Inr v \<Rightarrow> f v)"

text \<open>
  The RPC endpoint answers a method and its parameters; the search endpoint answers a
  query.
\<close>

definition rpc_call :: "(string \<Rightarrow> string list \<Rightarrow> http_outcome) \<Rightarrow> string \<Rightarrow> string list \<Rightarrow> pyerr + json" where
  "rpc_call rpc method params = fetch_json (rpc method params)"

definition dex_search :: "(string \<Rightarrow> http_outcome) \<Rightarrow> string \<Rightarrow> pyerr + json" where
  "dex_search api query = fetch_json (api query)"

definition LAMPORTS_PER_SOL :: int where
  "LAMPORTS_PER_SOL = 1000000000"

text \<open>\<^verbatim>\<open>x / n\<close> for an integer \<open>n\<close> other than zero.\<close>

fun py_truediv :: "json \<Rightarrow> int \<Rightarrow> pyerr + rat" where
  "py_truediv (JInt k) n = Inr (of_int k / of_int n)"
| "py_truediv (JFloat r) n = Inr (r / of_int n)"
| "py_truediv (JBool b) n = Inr ((if b then 1 else 0) / of_int n)"
| "py_truediv x n =
     Inl (TypeError (''unsupported operand type(s) for /: '' @ quoted (type_name x)
                      @ '' and '' @ quoted ''int''))"

text \<open>
  \<^verbatim>\<open>
  result = rpc_call("getBalance", [pubkey])
  lamports = result.get("result", {}).get("value", 0)
  return lamports / LAMPORTS_PER_SOL
  \<close>
\<close>

definition get_balance :: "(string \<Rightarrow> string list \<Rightarrow> http_outcome) \<Rightarrow> string \<Rightarrow> pyerr + rat" where
  "get_balance rpc pubkey =
     bind_exc (rpc_call rpc ''getBalance'' [pubkey]) (\<lambda>result.
     bind_exc (py_get result ''result'' (JDict [])) (\<lambda>r.
     bind_exc (py_get r ''value'' (JInt 0)) (\<lambda>lamports.
     py_truediv lamports LAMPORTS_PER_SOL)))"

text \<open>An entry of the \<^verbatim>\<open>SOLANA_WALLETS\<close> configuration.\<close>

record watched_wallet =
  cfg_address :: "string option"
  cfg_label :: "string option"

text \<open>
  The body of the loop of \<^verbatim>\<open>check_wallets\<close>; \<open>now\<close> is the clock's
  \<^verbatim>\<open>isoformat()\<close>.
\<close>

definition check_wallet_step ::
  "(string \<Rightarrow> string list \<Rightarrow> http_outcome) \<Rightarrow> string \<Rightarrow> watched_wallet \<Rightarrow> wallet_obs list \<Rightarrow> wallet_obs list" where
  "check_wallet_step rpc now wallet results =
     (let addr = (case cfg_address wallet of None \<Rightarrow> '''' | Some a \<Rightarrow> a);
          lbl = (case cfg_label wallet of None \<Rightarrow> take 8 addr | Some l \<Rightarrow> l)
      in if addr = '''' then results
         else (case get_balance rpc addr of
                 Inr balance \<Rightarrow>
                   results @ [\<lparr>address = addr, label = lbl, balance_sol = Some balance,
                                w_timestamp = Some now, w_error = None\<rparr>]
               | Inl e \<Rightarrow>
                   results @ [\<lparr>address = addr, label = lbl, balance_sol = None,
                                w_timestamp = None, w_error = Some (str_exc e)\<rparr>]))"

definition check_wallets ::
  "(string \<Rightarrow> string list \<Rightarrow> http_outcome) \<Rightarrow> string \<Rightarrow> watched_wallet list \<Rightarrow> wallet_obs list" where
  "check_wallets rpc now watched = fold (check_wallet_step rpc now) watched []"

text \<open>The truth value of \<^verbatim>\<open>if pairs:\<close> and the element \<^verbatim>\<open>pairs[0]\<close>.\<close>

fun truthy :: "json \<Rightarrow> bool" where
  "truthy JNull = False"
| "truthy (JBool b) = b"
| "truthy (JInt n) = (n \<noteq> 0)"
| "truthy (JFloat r) = (r \<noteq> 0)"
| "truthy (JStr s) = (s \<noteq> [])"
| "truthy (JList xs) = (xs \<noteq> [])"
| "truthy (JDict kvs) = (kvs \<noteq> [])"

fun first_item :: "json \<Rightarrow> pyerr + json" where
  "first_item (JList (x # xs)) = Inr x"
| "first_item (JList []) = Inl (IndexError ''list index out of range'')"
| "first_item (JStr (c # cs)) = Inr (JStr [c])"
| "first_item (JStr []) = Inl (IndexError ''string index out of range'')"
| "first_item (JDict kvs) = Inl (KeyError ''0'')"
| "first_item x = Inl (TypeError (quoted (type_name x) @ '' object is not subscriptable''))"

text \<open>
  The \<^verbatim>\<open>try\<close> block of \<^verbatim>\<open>check_prices\<close> for one token: the record it appends, or
  the exception it raises.
\<close>

definition price_record :: "(string \<Rightarrow> http_outcome) \<Rightarrow> string \<Rightarrow> string \<Rightarrow> pyerr + token_obs" where
  "price_record api now token =
     bind_exc (dex_search api token) (\<lambda>data.
     bind_exc (py_get data ''pairs'' (JList [])) (\<lambda>pairs.
       if truthy pairs then
         bind_exc (first_item pairs) (\<lambda>pair.
         bind_exc (py_get pair ''priceUsd'' (JStr ''N/A'')) (\<lambda>price.
         bind_exc (py_get pair ''priceChange'' (JDict [])) (\<lambda>pc.
         bind_exc (py_get pc ''h24'' (JStr ''N/A'')) (\<lambda>change.
         bind_exc (py_get pair ''volume'' (JDict [])) (\<lambda>vol.
         bind_exc (py_get vol ''h24'' (JStr ''N/A'')) (\<lambda>volume.
         bind_exc (py_get pair ''liquidity'' (JDict [])) (\<lambda>liq.
         bind_exc (py_get liq ''usd'' (JStr ''N/A'')) (\<lambda>liquidity.
         bind_exc (py_get pair ''dexId'' (JStr ''Unknown'')) (\<lambda>dex_id.
           Inr \<lparr>symbol = token, price_usd = Some price, change_24h = Some change,
                volume_24h = Some volume, liquidity_usd = Some liquidity, dex = Some dex_id,
                p_timestamp = Some now, p_error = None\<rparr>)))))))))
       else
         Inr \<lparr>symbol = token, price_usd = None, change_24h = None, volume_24h = None,
              liquidity_usd = None, dex = None, p_timestamp = None,
              p_error = Some ''No pairs found''\<rparr>))"

text \<open>The body of the loop of \<^verbatim>\<open>check_prices\<close>, with its \<^verbatim>\<open>except Exception\<close>.\<close>

definition check_price_step ::
  "(string \<Rightarrow> http_outcome) \<Rightarrow> string \<Rightarrow> string \<Rightarrow> token_obs list \<Rightarrow> token_obs list" where
  "check_price_step api now token results =
     (case price_record api now token of
        Inr r \<Rightarrow> results @ [r]
      | Inl e \<Rightarrow>
          results @ [\<lparr>symbol = token, price_usd = None, change_24h = None, volume_24h = None,
                       liquidity_usd = None, dex = None, p_timestamp = None,
                       p_error = Some (str_exc e)\<rparr>])"

definition check_prices :: "(string \<Rightarrow> http_outcome) \<Rightarrow> string \<Rightarrow> string list \<Rightarrow> token_obs list" where
  "check_prices api now tokens = fold (check_price_step api now) tokens []"

subsection \<open>Decimal literals\<close>

text \<open>
  The part of \<^verbatim>\<open>float(s)\<close> used in the examples below: an optional sign, digits, and
  an optional point followed by digits, with at least one digit in all. On such a
  string it is the number that \<^verbatim>\<open>float\<close> reads, before rounding.
\<close>

definition is_digit :: "char \<Rightarrow> bool" where
  "is_digit c = (c \<in> set ''0123456789'')"

definition digits_val :: "string \<Rightarrow> nat option" where
  "digits_val ds =
     (if list_all is_digit ds then Some (fold (\<lambda>c n. 10 * n + (of_char c - 48)) ds 0) else None)"

definition decimal_float :: "string \<Rightarrow> rat option" where
  "decimal_float s =
     (let neg = (case s of c # r \<Rightarrow> c = CHR ''-'' | [] \<Rightarrow> False);
          body = (case s of c # r \<Rightarrow> if c = CHR ''-'' \<or> c = CHR ''+'' then r else s | [] \<Rightarrow> s);
          ip = takeWhile (\<lambda>c. c \<noteq> CHR ''.'') body;
          fp = drop 1 (dropWhile (\<lambda>c. c \<noteq> CHR ''.'') body)
      in if ip = [] \<and> fp = [] then None
         else (case digits_val ip of
                 None \<Rightarrow> None
               | Some a \<Rightarrow>
                   (case digits_val fp of
                      None \<Rightarrow> None
                    | Some b \<Rightarrow>
                        Some ((if neg then - 1 else 1) * (of_nat a + of_nat b / 10 ^ length fp)))))"

subsection \<open>Example inputs\<close>

definition wallet_at :: "string \<Rightarrow> string \<Rightarrow> rat \<Rightarrow> wallet_obs" where
  "wallet_at addr lbl bal =
     \<lparr>address = addr, label = lbl, balance_sol = Some bal,
      w_timestamp = Some ''2024-01-01T00:00:00+00:00'', w_error = None\<rparr>"

definition token_at :: "string \<Rightarrow> string \<Rightarrow> token_obs" where
  "token_at tok price =
     \<lparr>symbol = tok, price_usd = Some (JStr price), change_24h = Some (JStr ''N/A''),
      volume_24h = Some (JStr ''N/A''), liquidity_usd = Some (JStr ''N/A''),
      dex = Some (JStr ''Unknown''), p_timestamp = Some ''2024-01-01T00:00:00+00:00'',
      p_error = None\<rparr>"

definition token_failed :: "string \<Rightarrow> string \<Rightarrow> token_obs" where
  "token_failed tok msg =
     \<lparr>symbol = tok, price_usd = None, change_24h = None, volume_24h = None,
      liquidity_usd = None, dex = None, p_timestamp = None, p_error = Some msg\<rparr>"

definition snapshot_of :: "wallet_obs list \<Rightarrow> token_obs list \<Rightarrow> snapshot" where
  "snapshot_of ws ps =
     \<lparr>timestamp = Some ''2024-01-01T00:00:00+00:00'', wallets = Some ws, prices = Some ps\<rparr>"

text \<open>A watchlist that names one address twice, read at two different balances.\<close>

definition twice_listed :: snapshot where
  "twice_listed =
     snapshot_of [wallet_at ''Addr1'' ''main'' 100, wallet_at ''Addr1'' ''main'' 200] []"

text \<open>Two snapshots, two readings of the clock within one minute, and an endpoint that
  does not answer.\<close>

definition snap_a :: snapshot where
  "snap_a = snapshot_of [wallet_at ''Addr1'' ''main'' 100] [token_at ''SOL'' ''1.000000'']"

definition snap_b :: snapshot where
  "snap_b = snapshot_of [wallet_at ''Addr1'' ''main'' 200] []"

definition clock_0905 :: datetime where
  "clock_0905 = \<lparr>year = 2024, month = 1, day = 2, hour = 9, minute = 5, second = 7\<rparr>"

definition clock_0905_later :: datetime where
  "clock_0905_later = \<lparr>year = 2024, month = 1, day = 2, hour = 9, minute = 5, second = 41\<rparr>"

definition rpc_timed_out :: "string \<Rightarrow> string list \<Rightarrow> http_outcome" where
  "rpc_timed_out method params = Failed ''<urlopen error timed out>''"

definition watched_main :: watched_wallet where
  "watched_main = \<lparr>cfg_address = Some ''Addr1'', cfg_label = Some ''main''\<rparr>"

section \<open>Properties\<close>

subsection \<open>Transactions per second\<close>

lemma sample_tps_negative_period:
  "samplePeriodSecs sample = Some period \<Longrightarrow> period < 0 \<Longrightarrow> sample_tps sample = 0"
  by (simp add: sample_tps_def)

lemma sample_tps_defaults:
  "sample_tps \<lparr>numTransactions = None, samplePeriodSecs = Some period\<rparr> = 0"
  "sample_tps \<lparr>numTransactions = Some txs, samplePeriodSecs = None\<rparr> = txs"
  by (simp_all add: sample_tps_def)

text \<open>
  Claim C9. For a performance sample with transaction count \<open>txs\<close> and period
  \<open>period\<close>, the reported figure is the floor of the quotient \<open>txs / period\<close>, computed
  by integer division, when the period is positive, and it is \<open>0\<close> when the period is
  \<open>0\<close>: no division by zero takes place.
\<close>

theorem sample_tps_floor:
  assumes "numTransactions sample = Some txs"
    and "samplePeriodSecs sample = Some period"
  shows "(0 < period \<longrightarrow> sample_tps sample = txs div period
            \<and> sample_tps sample = \<lfloor>real_of_int txs / real_of_int period\<rfloor>)
       \<and> (period = 0 \<longrightarrow> sample_tps sample = 0)"
  using assms by (simp add: sample_tps_def floor_divide_of_int_eq)

theorem sample_tps_floor_witness:
  "sample_tps \<lparr>numTransactions = Some 1000, samplePeriodSecs = Some 60\<rparr> = 16
   \<and> sample_tps \<lparr>numTransactions = Some 1000, samplePeriodSecs = Some 60\<rparr>
       = \<lfloor>real_of_int 1000 / real_of_int 60\<rfloor>
   \<and> sample_tps \<lparr>numTransactions = Some 1000, samplePeriodSecs = Some 0\<rparr> = 0"
  using sample_tps_floor [of "\<lparr>numTransactions = Some 1000, samplePeriodSecs = Some 60\<rparr>" 1000 60]
    sample_tps_floor [of "\<lparr>numTransactions = Some 1000, samplePeriodSecs = Some 0\<rparr>" 1000 0]
  by simp

subsection \<open>Evaluation of the examples\<close>

lemma show_nat_numeral:
  "show_nat (numeral k) =
     (if (numeral k :: nat) < 10 then [digit_char (numeral k)]
      else show_nat (numeral k div 10) @ [digit_char (numeral k mod 10)])"
  "show_nat 0 = ''0''" "show_nat 1 = ''1''" "show_nat (Suc 0) = ''1''"
  by (subst show_nat.simps, simp add: digit_char_def)+

lemma replicate_numeral: "replicate (numeral k) x = x # replicate (pred_numeral k) x"
  by (simp add: numeral_eq_Suc)

lemmas fmt_f_eval =
  replicate_numeral fmt_f_def round_half_even_def Let_def show_nat_numeral digit_char_def

lemma fmt_f_100: "fmt_f 1 100 = ''100.0''"
  by (simp add: fmt_f_eval)

lemma fmt_f_0: "fmt_f 4 0 = ''0.0000''"
  by (simp add: fmt_f_eval)

lemma fmt_f_examples:
  "fmt_f (Suc 0) 6 = ''6.0''"
  "fmt_f (Suc 0) 15 = ''15.0''"
  "fmt_f 4 100 = ''100.0000''"
  "fmt_f 4 106 = ''106.0000''"
  "fmt_f 4 1 = ''1.0000''"
  "fmt_f 4 (17 / 20) = ''0.8500''"
  by (simp_all add: fmt_f_eval)

lemma get_snapshot_of [simp]:
  "get_wallets (snapshot_of ws ps) = ws" "get_prices (snapshot_of ws ps) = ps"
  by (simp_all add: get_wallets_def get_prices_def snapshot_of_def)

lemma get_empty_dict [simp]: "get_wallets empty_dict = []" "get_prices empty_dict = []"
  by (simp_all add: get_wallets_def get_prices_def empty_dict_def)

lemma wallet_at_sel [simp]:
  "address (wallet_at a l b) = a" "label (wallet_at a l b) = l"
  "balance_sol (wallet_at a l b) = Some b"
  by (simp_all add: wallet_at_def)

lemma token_at_sel [simp]:
  "symbol (token_at s p) = s" "price_or_zero (token_at s p) = JStr p"
  by (simp_all add: token_at_def price_or_zero_def)

lemma token_failed_sel [simp]:
  "symbol (token_failed s m) = s" "price_usd (token_failed s m) = None"
  by (simp_all add: token_failed_def)

lemma decimal_float_examples:
  "decimal_float ''1.000000'' = Some 1"
  "decimal_float ''0.850000'' = Some (17 / 20)"
  "decimal_float ''1.100000'' = Some (11 / 10)"
  "decimal_float ''1.100001'' = Some (1100001 / 1000000)"
  "decimal_float ''N/A'' = None"
  by (simp_all add: decimal_float_def digits_val_def is_digit_def)

subsection \<open>The two loops of change detection\<close>

lemma wallet_step_append: "wallet_step idx w acc = acc @ wallet_step idx w []"
  by (simp add: wallet_step_def Let_def split: option.splits)

lemma price_step_append: "price_step pf idx p acc = acc @ price_step pf idx p []"
  by (simp add: price_step_def Let_def split: option.splits sum.splits)

lemma wallet_step_length: "length (wallet_step idx w []) \<le> 1"
  by (simp add: wallet_step_def Let_def split: option.splits)

lemma price_step_length: "length (price_step pf idx p []) \<le> 1"
  by (simp add: price_step_def Let_def split: option.splits sum.splits)

lemma fold_wallet_step:
  "fold (wallet_step idx) ws acc = acc @ concat (map (\<lambda>w. wallet_step idx w []) ws)"
proof (induction ws arbitrary: acc)
  case Nil
  then show ?case by simp
next
  case (Cons w ws)
  have "fold (wallet_step idx) (w # ws) acc = fold (wallet_step idx) ws (wallet_step idx w acc)"
    by simp
  also have "\<dots> = wallet_step idx w acc @ concat (map (\<lambda>w. wallet_step idx w []) ws)"
    by (rule Cons.IH)
  also have "wallet_step idx w acc = acc @ wallet_step idx w []"
    by (rule wallet_step_append)
  finally show ?case by simp
qed

lemma fold_price_step:
  "fold (price_step pf idx) ps acc = acc @ concat (map (\<lambda>p. price_step pf idx p []) ps)"
proof (induction ps arbitrary: acc)
  case Nil
  then show ?case by simp
next
  case (Cons p ps)
  have "fold (price_step pf idx) (p # ps) acc = fold (price_step pf idx) ps (price_step pf idx p acc)"
    by simp
  also have "\<dots> = price_step pf idx p acc @ concat (map (\<lambda>p. price_step pf idx p []) ps)"
    by (rule Cons.IH)
  also have "price_step pf idx p acc = acc @ price_step pf idx p []"
    by (rule price_step_append)
  finally show ?case by simp
qed

lemma detect_changes_sections:
  "detect_changes pf current previous =
     concat (map (\<lambda>w. wallet_step (index_wallets (get_wallets previous)) w []) (get_wallets current))
     @ concat (map (\<lambda>p. price_step pf (index_prices (get_prices previous)) p []) (get_prices current))"
  unfolding detect_changes_def Let_def
  by (simp add: fold_wallet_step fold_price_step)

subsection \<open>The index of the previous snapshot\<close>

lemma fold_upd_map_of:
  "fold (\<lambda>x m. m(k x \<mapsto> x)) xs m = m ++ map_of (rev (map (\<lambda>x. (k x, x)) xs))"
  by (induction xs arbitrary: m) (simp_all add: map_add_upd_left)

lemma index_wallets_map_of:
  "index_wallets ws = map_of (rev (map (\<lambda>w. (address w, w)) ws))"
  by (simp add: index_wallets_def fold_upd_map_of)

lemma index_prices_map_of:
  "index_prices ps = map_of (rev (map (\<lambda>p. (symbol p, p)) ps))"
  by (simp add: index_prices_def fold_upd_map_of)

lemma index_wallets_None: "a \<notin> set (map address ws) \<Longrightarrow> index_wallets ws a = None"
  by (simp add: index_wallets_map_of map_of_eq_None_iff image_image)

lemma index_prices_None: "s \<notin> set (map symbol ps) \<Longrightarrow> index_prices ps s = None"
  by (simp add: index_prices_map_of map_of_eq_None_iff image_image)

lemma index_wallets_distinct:
  assumes "distinct (map address ws)" and "w \<in> set ws"
  shows "index_wallets ws (address w) = Some w"
proof -
  have "distinct (map fst (rev (map (\<lambda>w. (address w, w)) ws)))"
    using assms(1) by (simp add: rev_map [symmetric] comp_def)
  moreover have "(address w, w) \<in> set (rev (map (\<lambda>w. (address w, w)) ws))"
    using assms(2) by auto
  ultimately show ?thesis
    unfolding index_wallets_map_of by (rule map_of_is_SomeI)
qed

lemma index_prices_distinct:
  assumes "distinct (map symbol ps)" and "p \<in> set ps"
  shows "index_prices ps (symbol p) = Some p"
proof -
  have "distinct (map fst (rev (map (\<lambda>p. (symbol p, p)) ps)))"
    using assms(1) by (simp add: rev_map [symmetric] comp_def)
  moreover have "(symbol p, p) \<in> set (rev (map (\<lambda>p. (symbol p, p)) ps))"
    using assms(2) by auto
  ultimately show ?thesis
    unfolding index_prices_map_of by (rule map_of_is_SomeI)
qed

lemma index_wallets_single [simp]: "index_wallets [w] = [address w \<mapsto> w]"
  by (simp add: index_wallets_def)

lemma index_prices_single [simp]: "index_prices [p] = [symbol p \<mapsto> p]"
  by (simp add: index_prices_def)

lemma wallet_step_self:
  "idx (address w) = Some w \<Longrightarrow> wallet_step idx w [] = []"
  by (simp add: wallet_step_def Let_def split: option.splits)

lemma price_step_self:
  "idx (symbol p) = Some p \<Longrightarrow> price_step pf idx p [] = []"
  by (simp add: price_step_def Let_def split: option.splits sum.splits)

subsection \<open>A snapshot compared with itself\<close>

text \<open>
  Claim C2, as amended. For every snapshot whose wallet addresses are pairwise distinct
  and whose token symbols are pairwise distinct, comparing the snapshot with itself
  yields no alert, whatever its balances and prices are (missing, non-numeric, zero or
  negative values included).
\<close>

theorem detect_changes_self_distinct:
  assumes "distinct (map address (get_wallets S))"
    and "distinct (map symbol (get_prices S))"
  shows "detect_changes pf S S = []"
proof -
  have "wallet_step (index_wallets (get_wallets S)) w [] = []" if "w \<in> set (get_wallets S)" for w
    using assms(1) that by (simp add: index_wallets_distinct wallet_step_self)
  moreover have "price_step pf (index_prices (get_prices S)) p [] = []"
    if "p \<in> set (get_prices S)" for p
    using assms(2) that by (simp add: index_prices_distinct price_step_self)
  ultimately show ?thesis
    by (simp add: detect_changes_sections)
qed

theorem detect_changes_self_distinct_witness:
  "detect_changes decimal_float
     (snapshot_of [wallet_at ''Addr1'' ''main'' 100, wallet_at ''Addr2'' ''cold'' 0]
        [token_at ''SOL'' ''1.000000'', token_at ''XYZ'' ''N/A''])
     (snapshot_of [wallet_at ''Addr1'' ''main'' 100, wallet_at ''Addr2'' ''cold'' 0]
        [token_at ''SOL'' ''1.000000'', token_at ''XYZ'' ''N/A'']) = []"
  using detect_changes_self_distinct
    [of "snapshot_of [wallet_at ''Addr1'' ''main'' 100, wallet_at ''Addr2'' ''cold'' 0]
           [token_at ''SOL'' ''1.000000'', token_at ''XYZ'' ''N/A'']" decimal_float]
  by simp

text \<open>
  The claim as stated, for every snapshot, fails where an address occurs twice with two
  balances: the index keeps the later entry, and the earlier one is compared with it.
\<close>

theorem detect_changes_self_counterexample:
  "detect_changes decimal_float twice_listed twice_listed \<noteq> []"
  by (simp add: detect_changes_sections twice_listed_def index_wallets_def wallet_step_def)

subsection \<open>Strict thresholds\<close>

lemma wallet_step_compared:
  assumes "prev_wallets (address wallet) = Some prev_wallet"
    and "balance_sol prev_wallet = Some prev_bal"
    and "0 < prev_bal"
    and "balance_sol wallet = Some curr_bal"
  shows "wallet_step prev_wallets wallet alerts =
           (if 5 < \<bar>(curr_bal - prev_bal) / prev_bal * 100\<bar>
            then alerts @
                   [''Wallet '' @ label wallet @ '': Balance ''
                      @ (if 0 < (curr_bal - prev_bal) / prev_bal * 100
                         then ''increased'' else ''decreased'')
                      @ '' by '' @ fmt_f 1 \<bar>(curr_bal - prev_bal) / prev_bal * 100\<bar>
                      @ ''% ('' @ fmt_f 4 prev_bal @ '' -> '' @ fmt_f 4 curr_bal @ '' SOL)'']
            else alerts)"
  using assms by (simp add: wallet_step_def Let_def)

lemma price_step_compared:
  assumes "prev_prices (symbol price) = Some prev"
    and "py_float pf (price_or_zero prev) = Inr prev_price"
    and "0 < prev_price"
    and "py_float pf (price_or_zero price) = Inr curr_price"
  shows "price_step pf prev_prices price alerts =
           (if 10 < \<bar>(curr_price - prev_price) / prev_price * 100\<bar>
            then alerts @
                   [symbol price @ '' ''
                      @ (if 0 < (curr_price - prev_price) / prev_price * 100
                         then ''pumped'' else ''dumped'')
                      @ '' '' @ fmt_f 1 \<bar>(curr_price - prev_price) / prev_price * 100\<bar>
                      @ ''% ($'' @ fmt_f 4 prev_price @ '' -> $'' @ fmt_f 4 curr_price @ '')'']
            else alerts)"
  using assms by (simp add: price_step_def Let_def)



subsection \<open>New wallets and empty previous balances\<close>

text \<open>
  Claim C4. A wallet of the current snapshot whose address does not occur among the
  wallets of the previous snapshot appends no alert, and neither does a wallet whose
  previous entry has balance \<open>0\<close> or no balance, whatever the current balance is.
\<close>

theorem no_alert_without_previous_balance:
  "(address wallet \<notin> set (map address (get_wallets previous))
      \<longrightarrow> wallet_step (index_wallets (get_wallets previous)) wallet alerts = alerts)
   \<and> (\<forall>prev_wallet.
        index_wallets (get_wallets previous) (address wallet) = Some prev_wallet
          \<and> (balance_sol prev_wallet = Some 0 \<or> balance_sol prev_wallet = None)
        \<longrightarrow> wallet_step (index_wallets (get_wallets previous)) wallet alerts = alerts)"
proof (intro conjI impI allI)
  assume "address wallet \<notin> set (map address (get_wallets previous))"
  then have "index_wallets (get_wallets previous) (address wallet) = None"
    by (rule index_wallets_None)
  then show "wallet_step (index_wallets (get_wallets previous)) wallet alerts = alerts"
    by (simp add: wallet_step_def)
next
  fix prev_wallet
  assume "index_wallets (get_wallets previous) (address wallet) = Some prev_wallet
            \<and> (balance_sol prev_wallet = Some 0 \<or> balance_sol prev_wallet = None)"
  then show "wallet_step (index_wallets (get_wallets previous)) wallet alerts = alerts"
    by (auto simp add: wallet_step_def Let_def split: option.splits)
qed

theorem no_alert_without_previous_balance_witness:
  "wallet_step (index_wallets (get_wallets (snapshot_of [wallet_at ''Addr2'' ''cold'' 0] [])))
     (wallet_at ''Addr1'' ''main'' 1000000) [] = []
   \<and> wallet_step (index_wallets (get_wallets (snapshot_of [wallet_at ''Addr2'' ''cold'' 0] [])))
       (wallet_at ''Addr2'' ''cold'' 1000000) [] = []"
  using no_alert_without_previous_balance
      [of "wallet_at ''Addr1'' ''main'' 1000000" "snapshot_of [wallet_at ''Addr2'' ''cold'' 0] []" "[]"]
    no_alert_without_previous_balance
      [of "wallet_at ''Addr2'' ''cold'' 1000000" "snapshot_of [wallet_at ''Addr2'' ''cold'' 0] []" "[]"]
  by simp

subsection \<open>Order of the alerts\<close>

text \<open>
  Claim C6. The list that \<open>detect_changes\<close> returns is the concatenation, over the
  wallets of the current snapshot in their order, of what each wallet contributes (no
  alert or one), followed by the concatenation, over the tokens of the current snapshot
  in their order, of what each token contributes (no alert or one).
\<close>

theorem detect_changes_order:
  "detect_changes pf current previous =
     concat (map (\<lambda>w. wallet_step (index_wallets (get_wallets previous)) w []) (get_wallets current))
     @ concat (map (\<lambda>p. price_step pf (index_prices (get_prices previous)) p []) (get_prices current))
   \<and> length (wallet_step (index_wallets (get_wallets previous)) w []) \<le> 1
   \<and> length (price_step pf (index_prices (get_prices previous)) p []) \<le> 1"
  using wallet_step_length [of "index_wallets (get_wallets previous)" w]
    price_step_length [of pf "index_prices (get_prices previous)" p]
  by (simp add: detect_changes_sections)

subsection \<open>A price missing from the current observation\<close>

lemma fmt_f_100_Suc: "fmt_f (Suc 0) 100 = ''100.0''"
  using fmt_f_100 by simp

text \<open>
  Claim C10. For a token of the current snapshot that the previous snapshot also has,
  with a previous price that \<^verbatim>\<open>float\<close> reads as strictly positive: if the current
  observation has no \<^verbatim>\<open>price_usd\<close> key, the default \<open>0\<close> is read as the price
  \<open>0.0\<close> and the alert \<open>symbol dumped 100.0% ($previous -> $0.0000)\<close> is appended, so
  that it is among the alerts that \<open>detect_changes\<close> returns.
\<close>

theorem missing_price_dumped:
  assumes "price \<in> set (get_prices current)"
    and "index_prices (get_prices previous) (symbol price) = Some prev"
    and "py_float pf (price_or_zero prev) = Inr prev_price"
    and "0 < prev_price"
    and "price_usd price = None"
  shows "price_step pf (index_prices (get_prices previous)) price alerts =
           alerts @ [symbol price @ '' dumped 100.0% ($'' @ fmt_f 4 prev_price @ '' -> $0.0000)'']
       \<and> symbol price @ '' dumped 100.0% ($'' @ fmt_f 4 prev_price @ '' -> $0.0000)''
           \<in> set (detect_changes pf current previous)"
proof -
  have zero: "py_float pf (price_or_zero price) = Inr 0"
    using assms(5) by (simp add: price_or_zero_def)
  have chg: "(0 - prev_price) / prev_price * 100 = - 100"
    using assms(4) by simp
  have step: "price_step pf (index_prices (get_prices previous)) price acc =
           acc @ [symbol price @ '' dumped 100.0% ($'' @ fmt_f 4 prev_price @ '' -> $0.0000)'']"
    for acc
    using assms(2-4) zero chg
    by (simp add: price_step_def Let_def fmt_f_100_Suc fmt_f_0)
  have "symbol price @ '' dumped 100.0% ($'' @ fmt_f 4 prev_price @ '' -> $0.0000)''
          \<in> set (price_step pf (index_prices (get_prices previous)) price [])"
    by (simp add: step)
  then have "symbol price @ '' dumped 100.0% ($'' @ fmt_f 4 prev_price @ '' -> $0.0000)''
          \<in> set (detect_changes pf current previous)"
    unfolding detect_changes_sections using assms(1) by auto
  then show ?thesis
    using step by simp
qed

lemma fmt_f_1: "fmt_f 4 1 = ''1.0000''"
  by (simp add: fmt_f_eval)

theorem missing_price_dumped_witness:
  "detect_changes decimal_float
     (snapshot_of [] [token_failed ''XYZ'' ''No pairs found''])
     (snapshot_of [] [token_at ''XYZ'' ''1.000000'']) =
   [''XYZ dumped 100.0% ($1.0000 -> $0.0000)'']"
proof -
  have "''XYZ'' @ '' dumped 100.0% ($'' @ fmt_f 4 1 @ '' -> $0.0000)''
          \<in> set (detect_changes decimal_float
                   (snapshot_of [] [token_failed ''XYZ'' ''No pairs found''])
                   (snapshot_of [] [token_at ''XYZ'' ''1.000000'']))"
    using missing_price_dumped
      [of "token_failed ''XYZ'' ''No pairs found''"
          "snapshot_of [] [token_failed ''XYZ'' ''No pairs found'']"
          "snapshot_of [] [token_at ''XYZ'' ''1.000000'']"
          "token_at ''XYZ'' ''1.000000''" decimal_float 1]
    by (simp add: decimal_float_examples)
  moreover have "length (detect_changes decimal_float
                   (snapshot_of [] [token_failed ''XYZ'' ''No pairs found''])
                   (snapshot_of [] [token_at ''XYZ'' ''1.000000''])) \<le> 1"
    using price_step_length [of decimal_float _ "token_failed ''XYZ'' ''No pairs found''"]
    by (simp add: detect_changes_sections)
  ultimately show ?thesis
    by (cases "detect_changes decimal_float
                   (snapshot_of [] [token_failed ''XYZ'' ''No pairs found''])
                   (snapshot_of [] [token_at ''XYZ'' ''1.000000''])")
       (auto simp add: fmt_f_1)
qed

text \<open>
  \<^verbatim>\<open>check_prices\<close> builds such an observation when the search finds no pair, and also
  when the request fails.
\<close>

lemma check_prices_no_pairs:
  "check_prices (\<lambda>q. Body (JDict [(''pairs'', JList [])])) now [''XYZ''] =
     [token_failed ''XYZ'' ''No pairs found'']"
  by (simp add: check_prices_def check_price_step_def price_record_def dex_search_def
      fetch_json_def bind_exc_def token_failed_def)

subsection \<open>The examples of the specification\<close>

lemma spec_example_wallet:
  "detect_changes decimal_float (snapshot_of [wallet_at ''Addr1'' ''main'' 106] [])
     (snapshot_of [wallet_at ''Addr1'' ''main'' 100] []) =
   [''Wallet main: Balance increased by 6.0% (100.0000 -> 106.0000 SOL)'']"
  by (simp add: detect_changes_sections wallet_step_def Let_def fmt_f_examples)

lemma spec_example_price:
  "detect_changes decimal_float (snapshot_of [] [token_at ''XYZ'' ''0.850000''])
     (snapshot_of [] [token_at ''XYZ'' ''1.000000'']) =
   [''XYZ dumped 15.0% ($1.0000 -> $0.8500)'']"
  by (simp add: detect_changes_sections price_step_def Let_def decimal_float_examples
      fmt_f_examples)

subsection \<open>The snapshot directory\<close>

lemma strftime_0905: "strftime_Ymd_HM clock_0905 = ''20240102-0905''"
  by (simp add: strftime_Ymd_HM_def clock_0905_def zero_pad_def show_nat_numeral digit_char_def
      replicate_numeral)

lemma strftime_0905_later: "strftime_Ymd_HM clock_0905_later = ''20240102-0905''"
  by (simp add: strftime_Ymd_HM_def clock_0905_later_def zero_pad_def show_nat_numeral
      digit_char_def replicate_numeral)

lemma is_json_file_snapshot: "is_json_file (''snapshot-'' @ ts @ ''.json'')"
  by (simp add: is_json_file_def)

subsection \<open>Reading the latest snapshot\<close>

lemma sorted_map_le_last:
  "sorted (map f ys) \<Longrightarrow> y \<in> set ys \<Longrightarrow> f y \<le> f (last ys)"
  by (induction ys) auto

lemma last_sort_key_max:
  assumes "x \<in> set xs" and "\<forall>y \<in> set xs. y \<noteq> x \<longrightarrow> f y < f x"
  shows "last (sort_key f xs) = x"
proof -
  have ne: "sort_key f xs \<noteq> []"
    using assms(1) by (metis empty_iff list.set(1) set_sort)
  then have mem: "last (sort_key f xs) \<in> set xs"
    by (metis last_in_set set_sort)
  have "x \<in> set (sort_key f xs)"
    using assms(1) by simp
  moreover have "sorted (map f (sort_key f xs))"
    by simp
  ultimately have "f x \<le> f (last (sort_key f xs))"
    by (metis sorted_map_le_last)
  with mem assms(2) show ?thesis
    by force
qed

lemma load_previous_snapshot_none:
  "filter (\<lambda>f. is_json_file (fst f)) dir = [] \<Longrightarrow> load_previous_snapshot dir = empty_dict"
  by (simp add: load_previous_snapshot_def)

text \<open>
  Claim C5. When the directory holds no snapshot file, \<open>load_previous_snapshot\<close>
  returns the empty dictionary, whose wallet and price lists read as empty, and
  \<open>detect_changes\<close> of any current snapshot against it returns no alert.
\<close>

theorem first_run_no_alerts:
  assumes "filter (\<lambda>f. is_json_file (fst f)) dir = []"
  shows "load_previous_snapshot dir = empty_dict
       \<and> get_wallets (load_previous_snapshot dir) = []
       \<and> get_prices (load_previous_snapshot dir) = []
       \<and> detect_changes pf current (load_previous_snapshot dir) = []"
proof -
  have e: "load_previous_snapshot dir = empty_dict"
    using assms by (rule load_previous_snapshot_none)
  have w: "wallet_step (index_wallets []) x [] = []" for x
    by (simp add: wallet_step_def index_wallets_def)
  have p: "price_step pf (index_prices []) y [] = []" for y
    by (simp add: price_step_def index_prices_def)
  show ?thesis
    by (simp add: e detect_changes_sections w p)
qed

theorem first_run_no_alerts_witness:
  "load_previous_snapshot [(''notes.txt'', snap_b)] = empty_dict
   \<and> get_wallets (load_previous_snapshot [(''notes.txt'', snap_b)]) = []
   \<and> get_prices (load_previous_snapshot [(''notes.txt'', snap_b)]) = []
   \<and> detect_changes decimal_float snap_a (load_previous_snapshot [(''notes.txt'', snap_b)]) = []"
  by (rule first_run_no_alerts) (simp add: is_json_file_def)

subsection \<open>Writing and reading back\<close>

text \<open>
  Claim C7, as amended. For every snapshot, the empty one included: if no snapshot file
  of the directory has a name that sorts after the name of the file being written, then
  \<open>save_snapshot\<close> followed by \<open>load_previous_snapshot\<close> returns the snapshot that was
  written.
\<close>

theorem save_then_load:
  assumes "\<forall>f \<in> set dir. is_json_file (fst f) \<longrightarrow> fst f \<le> fst (save_snapshot now data dir)"
  shows "load_previous_snapshot (snd (save_snapshot now data dir)) = data"
proof -
  define path where "path = ''snapshot-'' @ strftime_Ymd_HM now @ ''.json''"
  define files where "files = filter (\<lambda>f. is_json_file (fst f)) (write_text path data dir)"
  have saved: "save_snapshot now data dir = (path, write_text path data dir)"
    by (simp add: save_snapshot_def Let_def path_def)
  have json: "is_json_file path"
    unfolding path_def by (rule is_json_file_snapshot)
  have mem: "(path, data) \<in> set files"
    using json by (simp add: files_def write_text_def)
  have others: "\<forall>y \<in> set files. y \<noteq> (path, data) \<longrightarrow> fst y < fst (path, data)"
  proof (intro ballI impI)
    fix y assume y: "y \<in> set files" and ne: "y \<noteq> (path, data)"
    from y ne json have "y \<in> set dir" and "fst y \<noteq> path" and "is_json_file (fst y)"
      by (auto simp add: files_def write_text_def)
    moreover from this assms have "fst y \<le> path"
      by (simp add: saved)
    ultimately show "fst y < fst (path, data)"
      by simp
  qed
  have "last (sort_key fst files) = (path, data)"
    using mem others by (rule last_sort_key_max)
  moreover have "sort_key fst files \<noteq> []"
    using mem by (metis empty_iff list.set(1) set_sort)
  ultimately have "load_previous_snapshot (write_text path data dir) = data"
    unfolding load_previous_snapshot_def Let_def files_def [symmetric] by simp
  then show ?thesis
    by (simp add: saved)
qed

theorem save_then_load_witness:
  "load_previous_snapshot
     (snd (save_snapshot clock_0905 snap_a [(''snapshot-20240101-2359.json'', snap_b)])) = snap_a
   \<and> load_previous_snapshot (snd (save_snapshot clock_0905 empty_dict [])) = empty_dict"
proof -
  have "fst (save_snapshot clock_0905 snap_a [(''snapshot-20240101-2359.json'', snap_b)])
          = ''snapshot-20240102-0905.json''"
    by (simp add: save_snapshot_def Let_def strftime_0905)
  moreover have "''snapshot-20240101-2359.json'' \<le> ''snapshot-20240102-0905.json''"
    by (simp add: less_eq_char_def)
  ultimately have "\<forall>f \<in> set [(''snapshot-20240101-2359.json'', snap_b)].
           is_json_file (fst f) \<longrightarrow>
           fst f \<le> fst (save_snapshot clock_0905 snap_a [(''snapshot-20240101-2359.json'', snap_b)])"
    by simp
  then have "load_previous_snapshot
     (snd (save_snapshot clock_0905 snap_a [(''snapshot-20240101-2359.json'', snap_b)])) = snap_a"
    by (rule save_then_load)
  moreover have "load_previous_snapshot (snd (save_snapshot clock_0905 empty_dict [])) = empty_dict"
    by (rule save_then_load) simp
  ultimately show ?thesis
    by simp
qed

text \<open>
  Without that condition the claim fails: a file whose name sorts after the new one (here
  a snapshot dated one day ahead of the clock) stays the latest, and it is what is read
  back.
\<close>

theorem save_then_load_counterexample:
  "load_previous_snapshot
     (snd (save_snapshot clock_0905 snap_a [(''snapshot-20240103-0000.json'', snap_b)])) \<noteq> snap_a"
  by (simp add: save_snapshot_def Let_def strftime_0905 write_text_def load_previous_snapshot_def
      is_json_file_def less_eq_char_def snap_a_def snap_b_def snapshot_of_def)

subsection \<open>What a write leaves in place\<close>

text \<open>
  Claim C8, as amended. \<open>save_snapshot\<close> writes the file named after the clock at the
  granularity of a minute (the seconds do not enter the name); after the write that
  file holds the snapshot written, and every file with another name is as it was.
\<close>

theorem save_snapshot_frame:
  "fst (save_snapshot now data dir) = ''snapshot-'' @ strftime_Ymd_HM now @ ''.json''
   \<and> strftime_Ymd_HM (now\<lparr>second := s\<rparr>) = strftime_Ymd_HM now
   \<and> map_of (snd (save_snapshot now data dir)) (fst (save_snapshot now data dir)) = Some data
   \<and> (\<forall>name. name \<noteq> fst (save_snapshot now data dir) \<longrightarrow>
         map_of (snd (save_snapshot now data dir)) name = map_of dir name)"
proof -
  define path where "path = ''snapshot-'' @ strftime_Ymd_HM now @ ''.json''"
  have saved: "save_snapshot now data dir = (path, write_text path data dir)"
    by (simp add: save_snapshot_def Let_def path_def)
  have same: "map_of (write_text path data dir) path = Some data"
    unfolding write_text_def by (induction dir) auto
  have other: "map_of (write_text path data dir) name = map_of dir name" if "name \<noteq> path" for name
    using that unfolding write_text_def by (induction dir) auto
  show ?thesis
  proof (intro conjI allI impI)
    show "fst (save_snapshot now data dir) = ''snapshot-'' @ strftime_Ymd_HM now @ ''.json''"
      by (simp add: saved path_def)
    show "strftime_Ymd_HM (now\<lparr>second := s\<rparr>) = strftime_Ymd_HM now"
      by (simp add: strftime_Ymd_HM_def)
    show "map_of (snd (save_snapshot now data dir)) (fst (save_snapshot now data dir)) = Some data"
      by (simp add: saved same)
    fix name
    assume "name \<noteq> fst (save_snapshot now data dir)"
    then show "map_of (snd (save_snapshot now data dir)) name = map_of dir name"
      by (simp add: saved other)
  qed
qed

theorem save_snapshot_frame_witness:
  "map_of (snd (save_snapshot clock_0905 snap_a [(''snapshot-20240101-2359.json'', snap_b)]))
     ''snapshot-20240101-2359.json'' = Some snap_b"
  using save_snapshot_frame
    [of clock_0905 snap_a "[(''snapshot-20240101-2359.json'', snap_b)]" 0]
  by (simp add: save_snapshot_def Let_def strftime_0905)

text \<open>
  The claim as stated, that no existing record is overwritten, fails for two writes
  within one minute: the second replaces what the first wrote.
\<close>

theorem save_snapshot_overwrites_counterexample:
  "map_of (snd (save_snapshot clock_0905 snap_b [])) (fst (save_snapshot clock_0905 snap_b []))
     = Some snap_b
   \<and> map_of (snd (save_snapshot clock_0905_later snap_a
                    (snd (save_snapshot clock_0905 snap_b []))))
        (fst (save_snapshot clock_0905 snap_b [])) \<noteq> Some snap_b"
  by (simp add: save_snapshot_def Let_def strftime_0905 strftime_0905_later write_text_def
      snap_a_def snap_b_def snapshot_of_def)

subsection \<open>Balance queries that fail\<close>

lemma get_balance_failed:
  "rpc ''getBalance'' [pubkey] = Failed m \<Longrightarrow> get_balance rpc pubkey = Inr 0"
  by (simp add: get_balance_def rpc_call_def fetch_json_def bind_exc_def LAMPORTS_PER_SOL_def)

lemma get_balance_no_value:
  "rpc ''getBalance'' [pubkey] = Body (JDict [(''result'', JDict kvs)]) \<Longrightarrow>
   map_of kvs ''value'' = None \<Longrightarrow> get_balance rpc pubkey = Inr 0"
  by (simp add: get_balance_def rpc_call_def fetch_json_def bind_exc_def LAMPORTS_PER_SOL_def)

lemma get_balance_value:
  "rpc ''getBalance'' [pubkey] = Body (JDict [(''result'', JDict [(''value'', JInt n)])]) \<Longrightarrow>
   get_balance rpc pubkey = Inr (of_int n / 1000000000)"
  by (simp add: get_balance_def rpc_call_def fetch_json_def bind_exc_def LAMPORTS_PER_SOL_def)

lemma get_balance_bad_request:
  "rpc ''getBalance'' [pubkey] = BadRequest m \<Longrightarrow> get_balance rpc pubkey = Inl (ValueError m)"
  by (simp add: get_balance_def rpc_call_def fetch_json_def bind_exc_def)

lemma check_wallets_failed:
  assumes "rpc ''getBalance'' [addr] = Failed m" and "addr \<noteq> ''''"
  shows "check_wallets rpc now [\<lparr>cfg_address = Some addr, cfg_label = Some lbl\<rparr>] =
           [\<lparr>address = addr, label = lbl, balance_sol = Some 0,
             w_timestamp = Some now, w_error = None\<rparr>]"
  using assms by (simp add: check_wallets_def check_wallet_step_def get_balance_failed)

text \<open>
  Claim C1 says that a balance query whose RPC call fails is reported through the
  error of the observation and never as a balance of \<open>0\<close>. The code does otherwise:
  \<open>fetch_json\<close> turns the failure into the dictionary \<open>{"error": ...}\<close>, in which
  \<open>get_balance\<close> finds no \<open>result\<close>, so the balance is \<open>0 / LAMPORTS_PER_SOL\<close> and
  \<open>check_wallets\<close> records it with no error.
\<close>

theorem failed_query_reported_as_zero:
  "check_wallets rpc_timed_out ''2024-01-02T09:05:07+00:00'' [watched_main] =
     [\<lparr>address = ''Addr1'', label = ''main'', balance_sol = Some 0,
       w_timestamp = Some ''2024-01-02T09:05:07+00:00'', w_error = None\<rparr>]"
  by (simp add: check_wallets_def check_wallet_step_def watched_main_def
      get_balance_failed [of rpc_timed_out "''Addr1''" "''<urlopen error timed out>''"]
      rpc_timed_out_def)

end
